theory Spec2Isabelle
  imports Main "HOL-Library.Word"
begin

section \<open>Overview\<close>

text \<open>
  A shallow embedding of the secret-derivation code of the repository: the codename
  service (\<^verbatim>\<open>crypto.service.ts\<close>: challenge, normalization of the authenticator data,
  HKDF seed, selection of dictionary entries) and the password store
  (\<^verbatim>\<open>stores/passwords.ts\<close> with \<^verbatim>\<open>stores/webauthn.ts\<close>: canonical service label, password
  stretcher, the stored list, the asynchronous \<^verbatim>\<open>generatePassword\<close>). What the platform
  provides is a parameter of the functions that use it: the SHA-256 digest, HKDF, the
  authenticator, the clock. Definitions come first, then the properties.
\<close>

section \<open>Data model\<close>

text \<open>
  A \<^verbatim>\<open>Uint8Array\<close> is a list of 8-bit words. A JavaScript string is a sequence of
  UTF-16 code units, so it is a list of 16-bit words: \<^verbatim>\<open>split\<close> and indexing work on
  code units, and \<^verbatim>\<open>TextEncoder\<close> turns them into UTF-8 bytes.
\<close>

type_synonym byte = "8 word"
type_synonym bytes = "byte list"
type_synonym jsstring = "16 word list"

text \<open>A string literal of the source, written with ASCII characters.\<close>

definition js :: "string \<Rightarrow> jsstring" where
  "js s = map (\<lambda>c. of_nat (of_char c)) s"

subsection \<open>Platform primitives\<close>

text \<open>
  \<^verbatim>\<open>new TextEncoder().encode(s)\<close>: the UTF-8 encoding of a string of UTF-16 code units.
  A high surrogate followed by a low surrogate is one code point above U+FFFF; a
  surrogate on its own is encoded as U+FFFD.
\<close>

definition utf8_scalar :: "nat \<Rightarrow> bytes" where
  "utf8_scalar cp =
     (if cp < 0x80 then [of_nat cp]
      else if cp < 0x800 then [of_nat (0xC0 + cp div 64), of_nat (0x80 + cp mod 64)]
      else if cp < 0x10000 then
        [of_nat (0xE0 + cp div 4096), of_nat (0x80 + (cp div 64) mod 64),
         of_nat (0x80 + cp mod 64)]
      else
        [of_nat (0xF0 + cp div 262144), of_nat (0x80 + (cp div 4096) mod 64),
         of_nat (0x80 + (cp div 64) mod 64), of_nat (0x80 + cp mod 64)])"

definition is_high_surrogate :: "16 word \<Rightarrow> bool" where
  "is_high_surrogate u = (0xD800 \<le> unat u \<and> unat u < 0xDC00)"

definition is_low_surrogate :: "16 word \<Rightarrow> bool" where
  "is_low_surrogate u = (0xDC00 \<le> unat u \<and> unat u < 0xE000)"

definition utf8_unit :: "16 word \<Rightarrow> bytes" where
  "utf8_unit u =
     utf8_scalar (if is_high_surrogate u \<or> is_low_surrogate u then 0xFFFD else unat u)"

fun TextEncoder_encode :: "jsstring \<Rightarrow> bytes" where
  "TextEncoder_encode [] = []"
| "TextEncoder_encode [u] = utf8_unit u"
| "TextEncoder_encode (u # v # rest) =
     (if is_high_surrogate u \<and> is_low_surrogate v
      then utf8_scalar (0x10000 + (unat u - 0xD800) * 0x400 + (unat v - 0xDC00))
             @ TextEncoder_encode rest
      else utf8_unit u @ TextEncoder_encode (v # rest))"

text \<open>
  The string of a number in a template literal, \<^verbatim>\<open>`${version}`\<close>, for a number that is
  a non-negative integer below \<open>2^53\<close>: its decimal digits. Versions are such numbers (the
  interface asks for a positive integer, the form offers 1 to 999); a JavaScript number
  holds larger integers only approximately and prints them otherwise, and the model
  says nothing about them.
\<close>

definition digit_unit :: "nat \<Rightarrow> 16 word" where
  "digit_unit d = of_nat (48 + d)"

fun Number_toString :: "nat \<Rightarrow> jsstring" where
  "Number_toString n =
     (if n < 10 then [digit_unit n]
      else Number_toString (n div 10) @ [digit_unit (n mod 10)])"

declare Number_toString.simps [simp del]

section \<open>crypto.service.ts: the codename service\<close>

subsection \<open>getDeterministicAuthenticatorData\<close>

text \<open>
  \<^verbatim>\<open>
  const deterministicData = new Uint8Array(authenticatorData);
  deterministicData[21] = 0; deterministicData[22] = 0;
  deterministicData[23] = 0; deterministicData[24] = 0;
  return deterministicData;
  \<close>
  A store of an element of a typed array beyond its length is ignored, as \<open>xs[i := v]\<close>
  is beyond the length of \<open>xs\<close>. The function has no length check and no \<^verbatim>\<open>throw\<close>.
  First the contents of the returned array as a function of the contents of the argument.
  The argument is the \<^verbatim>\<open>authenticatorData\<close> of a WebAuthn assertion
  (\<^verbatim>\<open>credential.response.authenticatorData\<close> in \<^verbatim>\<open>webauthn.service.ts\<close>): the SHA-256
  hash of the relying party id in bytes 0 to 31, the flags in byte 32, the signature
  counter in bytes 33 to 36, then optional data. The bytes 21 to 24 that the function
  sets to zero lie in the hash.
\<close>

definition getDeterministicAuthenticatorData :: "bytes \<Rightarrow> bytes" where
  "getDeterministicAuthenticatorData authenticatorData =
     (let deterministicData = authenticatorData;
          deterministicData = deterministicData[21 := 0];
          deterministicData = deterministicData[22 := 0];
          deterministicData = deterministicData[23 := 0];
          deterministicData = deterministicData[24 := 0]
      in deterministicData)"

text \<open>
  The same function on an explicit store of typed arrays, where an array is an address:
  \<^verbatim>\<open>new Uint8Array(a)\<close> allocates a fresh array with a copy of the contents of \<open>a\<close>, and
  an element store changes the array at one address.
\<close>

type_synonym addr = nat

record store =
  arrays :: "addr \<Rightarrow> bytes"
  lim :: addr

definition allocated :: "store \<Rightarrow> addr \<Rightarrow> bool" where
  "allocated h a = (a < lim h)"

definition Uint8Array_from :: "store \<Rightarrow> addr \<Rightarrow> addr \<times> store" where
  "Uint8Array_from h a =
     (lim h, h\<lparr>arrays := (arrays h)(lim h := arrays h a), lim := Suc (lim h)\<rparr>)"

definition set_element :: "store \<Rightarrow> addr \<Rightarrow> nat \<Rightarrow> byte \<Rightarrow> store" where
  "set_element h a i v = h\<lparr>arrays := (arrays h)(a := (arrays h a)[i := v])\<rparr>"

definition getDeterministicAuthenticatorData_store :: "store \<Rightarrow> addr \<Rightarrow> addr \<times> store" where
  "getDeterministicAuthenticatorData_store h authenticatorData =
     (let (deterministicData, h) = Uint8Array_from h authenticatorData;
          h = set_element h deterministicData 21 0;
          h = set_element h deterministicData 22 0;
          h = set_element h deterministicData 23 0;
          h = set_element h deterministicData 24 0
      in (deterministicData, h))"

text \<open>
  Two byte sequences of one length that differ at most at the given positions; the
  positions the function sets to zero; the positions of the signature counter in
  authenticator data.
\<close>

definition differ_only_at :: "nat set \<Rightarrow> bytes \<Rightarrow> bytes \<Rightarrow> bool" where
  "differ_only_at positions a b =
     (length a = length b \<and>
      list_all (\<lambda>i. i \<in> positions \<or> a ! i = b ! i) [0 ..< length a])"

definition zeroed_bytes :: "nat set" where
  "zeroed_bytes = {21, 22, 23, 24}"

definition signCount_bytes :: "nat set" where
  "signCount_bytes = {33, 34, 35, 36}"

subsection \<open>Errors\<close>

text \<open>
  What the code throws: the platform's RangeError and TypeError, \<^verbatim>\<open>new Error(message)\<close>,
  and the error that \<^verbatim>\<open>generateCodename\<close> throws again from its \<^verbatim>\<open>catch\<close>, which wraps
  the text of the caught one.
\<close>

datatype js_error =
    RangeError
  | TypeError
  | Error jsstring
  | CodenameGenerationFailed js_error

definition and_then :: "js_error + 'a \<Rightarrow> ('a \<Rightarrow> js_error + 'b) \<Rightarrow> js_error + 'b" where
  "and_then r f = (case r of Inl e \<Rightarrow> Inl e | Inr x \<Rightarrow> f x)"

subsection \<open>generateDeterministicChallenge\<close>

text \<open>
  \<^verbatim>\<open>
  const data = encoder.encode(inputString);
  const hashBuffer = await crypto.subtle.digest('SHA-256', data);
  return new Uint8Array(hashBuffer);
  \<close>
  The platform's digest is the parameter \<open>sha256\<close>.
\<close>

definition generateDeterministicChallenge :: "(bytes \<Rightarrow> bytes) \<Rightarrow> jsstring \<Rightarrow> bytes" where
  "generateDeterministicChallenge sha256 inputString =
     (let data = TextEncoder_encode inputString in sha256 data)"

subsection \<open>deriveMasterSeed\<close>

text \<open>
  The argument of \<^verbatim>\<open>crypto.subtle.deriveBits\<close>: the algorithm parameters, the key and
  the number of bits. The platform's HKDF is the parameter \<open>deriveBits\<close>; it can reject.
\<close>

record hkdf_params =
  hash :: jsstring
  salt :: bytes
  info :: bytes

record hkdf_request =
  params :: hkdf_params
  keyMaterial :: bytes
  bits :: nat

definition deriveMasterSeed_request :: "bytes \<Rightarrow> jsstring \<Rightarrow> hkdf_request" where
  "deriveMasterSeed_request authenticatorData domainString =
     \<lparr>params = \<lparr>hash = js ''SHA-256'',
                 salt = TextEncoder_encode domainString,
                 info = TextEncoder_encode (js ''encryptio-codename-generation'')\<rparr>,
      keyMaterial = authenticatorData,
      bits = 512\<rparr>"

definition deriveMasterSeed ::
  "(hkdf_request \<Rightarrow> js_error + bytes) \<Rightarrow> bytes \<Rightarrow> jsstring \<Rightarrow> js_error + bytes" where
  "deriveMasterSeed deriveBits authenticatorData domainString =
     deriveBits (deriveMasterSeed_request authenticatorData domainString)"

subsection \<open>selectCharacter\<close>

record ChineseCharEntry =
  entry_char :: jsstring
  pinyin :: jsstring
  tone :: nat

text \<open>
  \<^verbatim>\<open>
  const value = new DataView(seedSegment.buffer).getUint32(0, false);
  const index = value % masterDictionary.length;
  return masterDictionary[index];
  \<close>
  \<^verbatim>\<open>getUint32\<close> throws a RangeError on a buffer of fewer than four bytes. With an empty
  dictionary the index is NaN and the result \<^verbatim>\<open>undefined\<close>, here \<open>None\<close>.
\<close>

definition getUint32_be :: "bytes \<Rightarrow> js_error + nat" where
  "getUint32_be buffer =
     (case buffer of
        b0 # b1 # b2 # b3 # _ \<Rightarrow>
          Inr (((unat b0 * 256 + unat b1) * 256 + unat b2) * 256 + unat b3)
      | _ \<Rightarrow> Inl RangeError)"

definition selectCharacter ::
  "ChineseCharEntry list \<Rightarrow> bytes \<Rightarrow> js_error + ChineseCharEntry option" where
  "selectCharacter masterDictionary seedSegment =
     and_then (getUint32_be seedSegment) (\<lambda>value.
       if length masterDictionary = 0 then Inr None
       else Inr (Some (masterDictionary ! (value mod length masterDictionary))))"

subsection \<open>generateCodename\<close>

record GeneratedCodename =
  chineseChar :: jsstring
  pinyinNote :: jsstring

text \<open>\<^verbatim>\<open>a.slice(from, to)\<close> of a typed array, for indices that are not negative.\<close>

definition slice :: "nat \<Rightarrow> nat \<Rightarrow> 'a list \<Rightarrow> 'a list" where
  "slice from to xs = drop from (take to xs)"

text \<open>Reading a property of \<^verbatim>\<open>undefined\<close> throws a TypeError.\<close>

definition defined :: "'a option \<Rightarrow> js_error + 'a" where
  "defined x = (case x of None \<Rightarrow> Inl TypeError | Some y \<Rightarrow> Inr y)"

text \<open>
  The body of the \<^verbatim>\<open>try\<close> block. \<open>authenticateSecurityKey\<close> is the authenticator
  collaborator of \<^verbatim>\<open>webauthn.service.ts\<close>: given the credential id and the challenge it
  throws, or returns \<^verbatim>\<open>null\<close>, or returns the authenticator data.
\<close>

definition generateCodename_try ::
  "(bytes \<Rightarrow> bytes) \<Rightarrow> (jsstring \<Rightarrow> bytes \<Rightarrow> js_error + bytes option) \<Rightarrow>
   (hkdf_request \<Rightarrow> js_error + bytes) \<Rightarrow> ChineseCharEntry list \<Rightarrow>
   jsstring \<Rightarrow> jsstring \<Rightarrow> js_error + GeneratedCodename" where
  "generateCodename_try sha256 authenticateSecurityKey deriveBits masterDictionary
       credentialId domainString =
     (let challenge = generateDeterministicChallenge sha256 domainString in
      and_then (authenticateSecurityKey credentialId challenge) (\<lambda>authenticatorDataRaw.
      case authenticatorDataRaw of
        None \<Rightarrow> Inl (Error (js
          ''Failed to get authenticator data from security key. Operation cancelled or timed out.''))
      | Some raw \<Rightarrow>
          (let deterministicAuthData = getDeterministicAuthenticatorData raw in
           and_then (deriveMasterSeed deriveBits deterministicAuthData domainString) (\<lambda>masterSeed.
           and_then (selectCharacter masterDictionary (slice 0 4 masterSeed)) (\<lambda>char1.
           and_then (selectCharacter masterDictionary (slice 4 8 masterSeed)) (\<lambda>char2.
           and_then (selectCharacter masterDictionary (slice 8 12 masterSeed)) (\<lambda>char3.
           and_then (defined char1) (\<lambda>c1.
           and_then (defined char2) (\<lambda>c2.
           and_then (defined char3) (\<lambda>c3.
             Inr \<lparr>chineseChar = entry_char c1 @ entry_char c2 @ entry_char c3,
                  pinyinNote = pinyin c1 @ js '' '' @ pinyin c2 @ js '' '' @ pinyin c3 @ js '' ''
                    @ Number_toString (tone c1) @ Number_toString (tone c2)
                    @ Number_toString (tone c3)\<rparr>))))))))))"

definition generateCodename ::
  "(bytes \<Rightarrow> bytes) \<Rightarrow> (jsstring \<Rightarrow> bytes \<Rightarrow> js_error + bytes option) \<Rightarrow>
   (hkdf_request \<Rightarrow> js_error + bytes) \<Rightarrow> ChineseCharEntry list \<Rightarrow>
   jsstring \<Rightarrow> jsstring \<Rightarrow> js_error + GeneratedCodename" where
  "generateCodename sha256 authenticateSecurityKey deriveBits masterDictionary
       credentialId domainString =
     (case generateCodename_try sha256 authenticateSecurityKey deriveBits masterDictionary
             credentialId domainString of
        Inl error \<Rightarrow> Inl (CodenameGenerationFailed error)
      | Inr codename \<Rightarrow> Inr codename)"

section \<open>The password store (stores/passwords.ts)\<close>

subsection \<open>String.prototype.split with a separator of one code unit\<close>

text \<open>
  \<^verbatim>\<open>s.split('.')\<close> returns the segments of \<open>s\<close> between the separators, in order; the
  result is never empty (\<^verbatim>\<open>''.split('.')\<close> is \<^verbatim>\<open>['']\<close>).
\<close>

fun String_split :: "'a \<Rightarrow> 'a list \<Rightarrow> 'a list list" where
  "String_split sep [] = [[]]"
| "String_split sep (c # cs) =
     (if c = sep then [] # String_split sep cs
      else (case String_split sep cs of
              [] \<Rightarrow> [[c]]
            | p # ps \<Rightarrow> (c # p) # ps))"

definition dot :: "16 word" where
  "dot = 0x2E"

text \<open>
  \<^verbatim>\<open>
  const parts = fullServiceName.split('.')
  const serviceName = parts.length > 1 ? parts[parts.length - 2] : fullServiceName
  \<close>
\<close>

definition serviceName :: "jsstring \<Rightarrow> jsstring" where
  "serviceName fullServiceName =
     (let parts = String_split dot fullServiceName
      in if length parts > 1 then parts ! (length parts - 2) else fullServiceName)"

subsection \<open>generatePasswordFromEntropy\<close>

definition allowedChars :: jsstring where
  "allowedChars =
     js ''ABCDEFGHIJKLMNOPQRSTUVWXYZabcdefghijklmnopqrstuvwxyz0123456789!@#$%^&*()_+=-[]{}|;:,.<>?''"

text \<open>
  \<^verbatim>\<open>seedData\<close>: the entropy, then the UTF-8 bytes of the service name, then those of
  \<^verbatim>\<open>`v${version}`\<close>.
\<close>

definition seedData_of :: "bytes \<Rightarrow> jsstring \<Rightarrow> nat \<Rightarrow> bytes" where
  "seedData_of entropy service_name version =
     entropy @ TextEncoder_encode service_name
             @ TextEncoder_encode (js ''v'' @ Number_toString version)"

text \<open>
  The variables of the loop, and the inputs given to \<^verbatim>\<open>crypto.subtle.digest\<close> so far
  (calling the digest is the one effect of the function).
\<close>

record loop_state =
  mainHash :: bytes
  hashIndex :: nat
  loop_password :: jsstring
  digest_inputs :: "bytes list"

text \<open>
  The refill branch of the loop body:
  \<^verbatim>\<open>
  if (hashIndex >= mainHash.length) {
    const newSeed = new Uint8Array(seedData.length + 1)
    newSeed.set(seedData)
    newSeed[seedData.length] = Math.floor(hashIndex / mainHash.length)
    const newHash = new Uint8Array(await crypto.subtle.digest('SHA-256', newSeed))
    mainHash.set(newHash)
    hashIndex = 0
  }
  \<close>
  \<^verbatim>\<open>mainHash.set(newHash)\<close> overwrites the front of \<^verbatim>\<open>mainHash\<close> and throws a RangeError
  when \<^verbatim>\<open>newHash\<close> is the longer one. \<^verbatim>\<open>0 / 0\<close> is NaN, stored in a typed array as 0.
\<close>

definition refill :: "(bytes \<Rightarrow> bytes) \<Rightarrow> bytes \<Rightarrow> loop_state \<Rightarrow> js_error + loop_state" where
  "refill sha256 seedData s =
     (if hashIndex s \<ge> length (mainHash s) then
        (let counter = (if length (mainHash s) = 0 then 0
                        else of_nat (hashIndex s div length (mainHash s)));
             newSeed = seedData @ [counter];
             newHash = sha256 newSeed
         in if length newHash > length (mainHash s) then Inl RangeError
            else Inr (s\<lparr>mainHash := newHash @ drop (length newHash) (mainHash s),
                        hashIndex := 0,
                        digest_inputs := digest_inputs s @ [newSeed]\<rparr>))
      else Inr s)"

text \<open>
  The rest of the loop body:
  \<^verbatim>\<open>
  const charIndex = mainHash[hashIndex] % allowedChars.length
  password += allowedChars[charIndex]
  hashIndex++
  \<close>
  Reading an empty \<^verbatim>\<open>mainHash\<close> gives \<^verbatim>\<open>undefined\<close>, the index is then NaN, and
  \<^verbatim>\<open>password += undefined\<close> appends the text "undefined".
\<close>

definition emit :: "loop_state \<Rightarrow> loop_state" where
  "emit s =
     s\<lparr>loop_password := loop_password s @
          (if hashIndex s < length (mainHash s)
           then [allowedChars ! (unat (mainHash s ! hashIndex s) mod length allowedChars)]
           else js ''undefined''),
       hashIndex := hashIndex s + 1\<rparr>"

definition loop_body :: "(bytes \<Rightarrow> bytes) \<Rightarrow> bytes \<Rightarrow> loop_state \<Rightarrow> js_error + loop_state" where
  "loop_body sha256 seedData s =
     (case refill sha256 seedData s of
        Inl e \<Rightarrow> Inl e
      | Inr s' \<Rightarrow> Inr (emit s'))"

text \<open>\<^verbatim>\<open>for (let i = 0; i < 20; i++)\<close>, by the number of iterations that remain.\<close>

fun for_loop :: "(bytes \<Rightarrow> bytes) \<Rightarrow> bytes \<Rightarrow> nat \<Rightarrow> loop_state \<Rightarrow> js_error + loop_state" where
  "for_loop sha256 seedData 0 s = Inr s"
| "for_loop sha256 seedData (Suc n) s =
     (case loop_body sha256 seedData s of
        Inl e \<Rightarrow> Inl e
      | Inr s' \<Rightarrow> for_loop sha256 seedData n s')"

text \<open>
  The whole function, with the platform's digest as a parameter. The first definition
  returns the final loop state, the second the password alone, as the source does.
\<close>

definition generatePasswordFromEntropy_run ::
  "(bytes \<Rightarrow> bytes) \<Rightarrow> bytes \<Rightarrow> jsstring \<Rightarrow> nat \<Rightarrow> js_error + loop_state" where
  "generatePasswordFromEntropy_run sha256 entropy fullServiceName version =
     (let seedData = seedData_of entropy (serviceName fullServiceName) version
      in for_loop sha256 seedData 20
           \<lparr>mainHash = sha256 seedData, hashIndex = 0, loop_password = [],
            digest_inputs = [seedData]\<rparr>)"

definition generatePasswordFromEntropy ::
  "(bytes \<Rightarrow> bytes) \<Rightarrow> bytes \<Rightarrow> jsstring \<Rightarrow> nat \<Rightarrow> js_error + jsstring" where
  "generatePasswordFromEntropy sha256 entropy fullServiceName version =
     (case generatePasswordFromEntropy_run sha256 entropy fullServiceName version of
        Inl e \<Rightarrow> Inl e
      | Inr s \<Rightarrow> Inr (loop_password s))"

text \<open>
  The function the source is compared with: each of the first 20 bytes of the digest of
  the seed data, taken modulo the length of the alphabet, selects a character.
\<close>

definition simple_stretcher :: "(bytes \<Rightarrow> bytes) \<Rightarrow> bytes \<Rightarrow> jsstring \<Rightarrow> nat \<Rightarrow> jsstring" where
  "simple_stretcher sha256 entropy fullServiceName version =
     map (\<lambda>b. allowedChars ! (unat b mod length allowedChars))
       (take 20 (sha256 (entropy @ TextEncoder_encode (serviceName fullServiceName)
                                 @ TextEncoder_encode (js ''v'' @ Number_toString version))))"

text \<open>The digest of the test suite's mock of \<^verbatim>\<open>crypto.subtle\<close>: 32 zero bytes.\<close>

definition mock_digest :: "bytes \<Rightarrow> bytes" where
  "mock_digest data = replicate 32 0"

subsection \<open>The WebAuthn store (stores/webauthn.ts)\<close>

record WebAuthnCredential =
  cred_id :: jsstring
  cred_name :: jsstring
  created :: nat
  lastUsed :: "nat option"

text \<open>
  Of the store's state, the credentials and \<^verbatim>\<open>isSupported\<close>; its own \<^verbatim>\<open>lastError\<close> and
  \<^verbatim>\<open>isRegistering\<close> are read by nothing modelled here.
\<close>

record webauthn_store =
  credentials :: "WebAuthnCredential list"
  isSupported :: bool

definition hasCredentials :: "webauthn_store \<Rightarrow> bool" where
  "hasCredentials ws = (length (credentials ws) > 0)"

definition primaryCredential :: "webauthn_store \<Rightarrow> WebAuthnCredential option" where
  "primaryCredential ws = (case credentials ws of [] \<Rightarrow> None | c # _ \<Rightarrow> Some c)"

text \<open>
  \<^verbatim>\<open>getEntropy\<close> returns \<^verbatim>\<open>null\<close> without an authenticator interaction when WebAuthn is
  not supported, and also when \<^verbatim>\<open>atob\<close> throws on the credential id (the exception is
  caught). Otherwise it asks \<^verbatim>\<open>navigator.credentials.get\<close> with the bytes of the decoded
  credential id and the UTF-8 bytes of the challenge string. The platform's \<^verbatim>\<open>atob\<close> is
  the parameter \<open>atob\<close> (\<open>None\<close> when it throws). The authenticator is the parameter
  \<open>navigator_credentials_get\<close>: \<open>Some\<close> signature, or \<open>None\<close> when it throws or gives no
  assertion (both make \<^verbatim>\<open>getEntropy\<close> return \<^verbatim>\<open>null\<close>).
\<close>

record assertion_request =
  allowCredential :: bytes
  challengeBytes :: bytes

text \<open>\<^verbatim>\<open>Uint8Array.from(binary, c => c.charCodeAt(0))\<close>: each code unit modulo 256.\<close>

definition Uint8Array_from_string :: "jsstring \<Rightarrow> bytes" where
  "Uint8Array_from_string binary = map (\<lambda>c. of_nat (unat c)) binary"

definition getEntropy_request ::
  "webauthn_store \<Rightarrow> (jsstring \<Rightarrow> jsstring option) \<Rightarrow> jsstring \<Rightarrow> jsstring \<Rightarrow>
   assertion_request option" where
  "getEntropy_request ws atob credentialId challenge =
     (if \<not> isSupported ws then None
      else
        (let challengeBytes' = TextEncoder_encode challenge
         in case atob credentialId of
              None \<Rightarrow> None
            | Some binary \<Rightarrow>
                Some \<lparr>allowCredential = Uint8Array_from_string binary,
                      challengeBytes = challengeBytes'\<rparr>))"

definition getEntropy ::
  "webauthn_store \<Rightarrow> (jsstring \<Rightarrow> jsstring option) \<Rightarrow> (assertion_request \<Rightarrow> bytes option) \<Rightarrow>
   jsstring \<Rightarrow> jsstring \<Rightarrow> bytes option" where
  "getEntropy ws atob navigator_credentials_get credentialId challenge =
     (case getEntropy_request ws atob credentialId challenge of
        None \<Rightarrow> None
      | Some request \<Rightarrow> navigator_credentials_get request)"

subsection \<open>The state of the password store\<close>

record GeneratedPassword =
  service :: jsstring
  password :: jsstring
  version :: nat
  generated :: nat
  credentialId :: jsstring

text \<open>
  \<^verbatim>\<open>lastError\<close> holds a fixed text or the message of a caught error. \<open>localStorage\<close> is
  the list last written by \<^verbatim>\<open>savePasswords\<close> under the key 'yubikey-passwords'. A version
  is a natural number: the form of the page offers the versions from 1 on, and the
  store itself does not check the number it is given.
\<close>

datatype error_text = Message jsstring | MessageOf js_error

record password_store =
  passwords :: "GeneratedPassword list"
  isGenerating :: bool
  lastError :: "error_text option"
  localStorage :: "GeneratedPassword list option"

definition savePasswords :: "password_store \<Rightarrow> password_store" where
  "savePasswords st = st\<lparr>localStorage := Some (passwords st)\<rparr>"

definition clearPasswords :: "password_store \<Rightarrow> password_store" where
  "clearPasswords st = savePasswords (st\<lparr>passwords := []\<rparr>)"

definition removePassword :: "jsstring \<Rightarrow> nat \<Rightarrow> password_store \<Rightarrow> password_store" where
  "removePassword service' version' st =
     savePasswords
       (st\<lparr>passwords :=
             filter (\<lambda>p. \<not> (service p = service' \<and> version p = version')) (passwords st)\<rparr>)"

text \<open>
  \<^verbatim>\<open>loadPasswords\<close>, which the store calls once when it is created: with nothing saved
  the list stays as it is; otherwise the saved list is read back, every entry with
  \<^verbatim>\<open>version: pwd.version || 1\<close>, that is with version 0 replaced by 1. (The dates are
  written and read back unchanged; \<^verbatim>\<open>JSON.parse\<close> does not fail on what
  \<^verbatim>\<open>savePasswords\<close> wrote. An entry saved without a version, which the code also reads
  as version 1, is not a value of the record and is not modelled.)
\<close>

definition loadPasswords :: "password_store \<Rightarrow> password_store" where
  "loadPasswords st =
     (case localStorage st of
        None \<Rightarrow> st
      | Some saved \<Rightarrow>
          st\<lparr>passwords :=
               map (\<lambda>pwd. pwd\<lparr>version := (if version pwd = 0 then 1 else version pwd)\<rparr>) saved\<rparr>)"

text \<open>\<^verbatim>\<open>Array.prototype.findIndex\<close>: the first index that satisfies the predicate, or -1.\<close>

fun findIndex :: "('a \<Rightarrow> bool) \<Rightarrow> 'a list \<Rightarrow> int" where
  "findIndex P [] = -1"
| "findIndex P (x # xs) =
     (if P x then 0 else (let i = findIndex P xs in if i < 0 then -1 else i + 1))"

text \<open>
  The update of the list in \<^verbatim>\<open>generatePassword\<close>:
  \<^verbatim>\<open>
  const existingIndex = passwords.value.findIndex(p =>
    p.service === serviceName && p.version === version)
  if (existingIndex >= 0) { passwords.value[existingIndex] = generatedPassword }
  else { passwords.value.unshift(generatedPassword) }
  if (passwords.value.length > 100) { passwords.value = passwords.value.slice(0, 100) }
  \<close>
\<close>

definition store_generated ::
  "GeneratedPassword \<Rightarrow> GeneratedPassword list \<Rightarrow> GeneratedPassword list" where
  "store_generated generatedPassword ps =
     (let existingIndex =
            findIndex (\<lambda>p. service p = service generatedPassword \<and>
                             version p = version generatedPassword) ps;
          ps = (if existingIndex \<ge> 0 then ps[nat existingIndex := generatedPassword]
                else generatedPassword # ps)
      in if length ps > 100 then take 100 ps else ps)"

subsection \<open>generatePassword\<close>

text \<open>
  \<^verbatim>\<open>generatePassword\<close> is asynchronous. It runs from the call to the point where
  \<^verbatim>\<open>getEntropy\<close> has asked the authenticator (\<open>generatePassword_start\<close>), and again from
  the authenticator's answer to the end (\<open>generatePassword_resume\<close>); between the two,
  other code of the page runs. What the second part needs from the first is in the
  pending call. Without a credential, or without WebAuthn support, the call ends in
  the first part and no authenticator interaction begins. The only shared state the
  second part touches, after the digest is computed, is the store, in one step.
  \<^verbatim>\<open>primaryCredential!\<close> is not null once \<^verbatim>\<open>hasCredentials\<close> holds; were it null, reading
  its \<^verbatim>\<open>id\<close> would throw a TypeError into the \<^verbatim>\<open>catch\<close>. A write to localStorage that
  fails for lack of space is not modelled.
\<close>

record pending_call =
  request :: assertion_request
  call_service :: jsstring
  call_version :: nat
  call_credentialId :: jsstring

datatype started =
    Returned "jsstring option" password_store
  | Awaiting pending_call password_store

definition challenge_string :: "jsstring \<Rightarrow> nat \<Rightarrow> jsstring" where
  "challenge_string serviceName' version' =
     js ''YubiKeyPasswordGenerator-'' @ serviceName' @ js ''-v'' @ Number_toString version'"

definition generatePassword_start ::
  "webauthn_store \<Rightarrow> (jsstring \<Rightarrow> jsstring option) \<Rightarrow> password_store \<Rightarrow> jsstring \<Rightarrow> nat \<Rightarrow>
   started" where
  "generatePassword_start ws atob st serviceName' version' =
     (if \<not> hasCredentials ws then
        Returned None
          (st\<lparr>lastError := Some (Message (js ''No YubiKey credentials registered''))\<rparr>)
      else
        (let st = st\<lparr>isGenerating := True, lastError := None\<rparr>
         in case primaryCredential ws of
              None \<Rightarrow>
                Returned None (st\<lparr>lastError := Some (MessageOf TypeError), isGenerating := False\<rparr>)
            | Some credential \<Rightarrow>
                (let challenge = challenge_string serviceName' version'
                 in case getEntropy_request ws atob (cred_id credential) challenge of
                      None \<Rightarrow>
                        Returned None
                          (st\<lparr>lastError :=
                                Some (Message (js ''Failed to get entropy from YubiKey'')),
                              isGenerating := False\<rparr>)
                    | Some req \<Rightarrow>
                        Awaiting \<lparr>request = req, call_service = serviceName',
                                  call_version = version',
                                  call_credentialId = cred_id credential\<rparr> st)))"

definition generatePassword_resume ::
  "(bytes \<Rightarrow> bytes) \<Rightarrow> nat \<Rightarrow> pending_call \<Rightarrow> bytes option \<Rightarrow> password_store \<Rightarrow>
   jsstring option \<times> password_store" where
  "generatePassword_resume sha256 now call entropy st =
     (case entropy of
        None \<Rightarrow>
          (None, st\<lparr>lastError := Some (Message (js ''Failed to get entropy from YubiKey'')),
                    isGenerating := False\<rparr>)
      | Some e \<Rightarrow>
          (case generatePasswordFromEntropy sha256 e (call_service call) (call_version call) of
             Inl error \<Rightarrow>
               (None, st\<lparr>lastError := Some (MessageOf error), isGenerating := False\<rparr>)
           | Inr password' \<Rightarrow>
               (let generatedPassword =
                      \<lparr>service = call_service call, password = password',
                       version = call_version call, generated = now,
                       credentialId = call_credentialId call\<rparr>;
                    st = st\<lparr>passwords := store_generated generatedPassword (passwords st)\<rparr>;
                    st = savePasswords st
                in (Some password', st\<lparr>isGenerating := False\<rparr>))))"

text \<open>One call run from start to end with nothing in between.\<close>

definition generatePassword ::
  "webauthn_store \<Rightarrow> (jsstring \<Rightarrow> jsstring option) \<Rightarrow> (assertion_request \<Rightarrow> bytes option) \<Rightarrow>
   (bytes \<Rightarrow> bytes) \<Rightarrow> nat \<Rightarrow> password_store \<Rightarrow> jsstring \<Rightarrow> nat \<Rightarrow>
   jsstring option \<times> password_store" where
  "generatePassword ws atob navigator_credentials_get sha256 now st serviceName' version' =
     (case generatePassword_start ws atob st serviceName' version' of
        Returned result st' \<Rightarrow> (result, st')
      | Awaiting call st' \<Rightarrow>
          generatePassword_resume sha256 now call
            (navigator_credentials_get (request call)) st')"

subsection \<open>Sequences of operations, interleaved\<close>

text \<open>
  The page between two events: the store and the authenticator interactions that have
  begun and are not answered yet, oldest first. An event is a call of
  \<^verbatim>\<open>generatePassword\<close> (with the WebAuthn store of that moment), the authenticator's
  answer to the pending interaction at an index (with the time of the answer), a call
  of \<^verbatim>\<open>removePassword\<close> or a call of \<^verbatim>\<open>clearPasswords\<close>. A call that is answered at once
  is the sequence of a \<open>Call\<close> and the \<open>Answer\<close> to it.
\<close>

record page =
  pstore :: password_store
  in_flight :: "pending_call list"

datatype event =
    Call webauthn_store jsstring nat
  | Answer nat "bytes option" nat
  | Remove jsstring nat
  | Clear

fun page_step ::
  "(jsstring \<Rightarrow> jsstring option) \<Rightarrow> (bytes \<Rightarrow> bytes) \<Rightarrow> page \<Rightarrow> event \<Rightarrow> page" where
  "page_step atob sha256 pg (Call ws serviceName' version') =
     (case generatePassword_start ws atob (pstore pg) serviceName' version' of
        Returned result st' \<Rightarrow> pg\<lparr>pstore := st'\<rparr>
      | Awaiting call st' \<Rightarrow> pg\<lparr>pstore := st', in_flight := in_flight pg @ [call]\<rparr>)"
| "page_step atob sha256 pg (Answer k entropy now) =
     (if k < length (in_flight pg) then
        pg\<lparr>pstore := snd (generatePassword_resume sha256 now (in_flight pg ! k) entropy (pstore pg)),
           in_flight := take k (in_flight pg) @ drop (Suc k) (in_flight pg)\<rparr>
      else pg)"
| "page_step atob sha256 pg (Remove service' version') =
     pg\<lparr>pstore := removePassword service' version' (pstore pg)\<rparr>"
| "page_step atob sha256 pg Clear = pg\<lparr>pstore := clearPasswords (pstore pg)\<rparr>"

definition run_page ::
  "(jsstring \<Rightarrow> jsstring option) \<Rightarrow> (bytes \<Rightarrow> bytes) \<Rightarrow> page \<Rightarrow> event list \<Rightarrow> page" where
  "run_page atob sha256 pg events = foldl (page_step atob sha256) pg events"

definition initial_store :: password_store where
  "initial_store = \<lparr>passwords = [], isGenerating = False, lastError = None, localStorage = None\<rparr>"

text \<open>
  The store as \<^verbatim>\<open>usePasswordsStore\<close> creates it over a given content of the local storage:
  the initial values of the three refs, then \<^verbatim>\<open>loadPasswords()\<close>.
\<close>

definition new_store :: "GeneratedPassword list option \<Rightarrow> password_store" where
  "new_store saved = loadPasswords (initial_store\<lparr>localStorage := saved\<rparr>)"

text \<open>The invariant of the list: at most 100 entries, at most one for a service and version.\<close>

definition entry_key :: "GeneratedPassword \<Rightarrow> jsstring \<times> nat" where
  "entry_key p = (service p, version p)"

definition list_ok :: "GeneratedPassword list \<Rightarrow> bool" where
  "list_ok ps = (length ps \<le> 100 \<and> distinct (map entry_key ps))"

text \<open>
  Example data: a store with one credential whose id is the base64 text of "test-id",
  the one value of \<^verbatim>\<open>atob\<close> that the examples need, and an idle page.
\<close>

definition test_webauthn :: webauthn_store where
  "test_webauthn =
     \<lparr>credentials = [\<lparr>cred_id = js ''dGVzdC1pZA=='', cred_name = js ''Test YubiKey'',
                      created = 0, lastUsed = None\<rparr>],
      isSupported = True\<rparr>"

definition example_atob :: "jsstring \<Rightarrow> jsstring option" where
  "example_atob s = (if s = js ''dGVzdC1pZA=='' then Some (js ''test-id'') else None)"

definition test_id_bytes :: bytes where
  "test_id_bytes = Uint8Array_from_string (js ''test-id'')"

definition idle_page :: page where
  "idle_page = \<lparr>pstore = initial_store, in_flight = []\<rparr>"

section \<open>Auxiliary definitions for the statements\<close>

text \<open>
  \<^verbatim>\<open>parts.join('.')\<close>, the inverse of \<^verbatim>\<open>split\<close>: it says what the segments of a string
  are without referring to \<open>String_split\<close>.
\<close>

fun String_join :: "'a \<Rightarrow> 'a list list \<Rightarrow> 'a list" where
  "String_join sep [] = []"
| "String_join sep [p] = p"
| "String_join sep (p # q # ps) = p @ sep # String_join sep (q # ps)"

definition segments_of :: "jsstring \<Rightarrow> jsstring list \<Rightarrow> bool" where
  "segments_of s parts =
     (parts \<noteq> [] \<and> list_all (\<lambda>p. dot \<notin> set p) parts \<and> String_join dot parts = s)"

text \<open>
  Example data: an assertion of 37 bytes, the size of authenticator data without
  extensions; a store that holds it and a second one that differs in bytes 21 and 24;
  a store of two assertions that differ only in the signature counter, 1 and 2; and a
  store of an assertion of three bytes.
\<close>

definition example_assertion :: bytes where
  "example_assertion = map of_nat [1 ..< 38]"

definition example_store :: store where
  "example_store =
     \<lparr>arrays = (\<lambda>a. [])(0 := example_assertion,
                          1 := example_assertion[21 := 0xAA, 24 := 0xBB]),
      lim = 2\<rparr>"

definition counter_store :: store where
  "counter_store =
     \<lparr>arrays = (\<lambda>a. [])(0 := take 33 example_assertion @ [0, 0, 0, 1],
                          1 := take 33 example_assertion @ [0, 0, 0, 2]),
      lim = 2\<rparr>"

definition short_store :: store where
  "short_store = \<lparr>arrays = (\<lambda>a. [])(0 := [1, 2, 3]), lim = 1\<rparr>"


text \<open>
  A run that fills the list and then regenerates its oldest entry: versions 100 down to
  1 of one service are generated at time 0, each call answered at once
  (\<open>fill_events 100\<close>); version 100, the last entry of the list, is generated again at
  time 1000 (\<open>regenerate_events\<close>); version 101 is generated at time 1001
  (\<open>add_events\<close>). \<open>full_entry v\<close> is the entry that the first part stores for version
  \<open>v\<close> under the digest of the test suite.
\<close>

definition full_entry :: "nat \<Rightarrow> GeneratedPassword" where
  "full_entry v =
     \<lparr>service = js ''example.com'', password = replicate 20 (allowedChars ! 0),
      version = v, generated = 0, credentialId = js ''dGVzdC1pZA==''\<rparr>"




text \<open>A saved list with versions 0 and 1 of one service.\<close>

definition legacy_list :: "GeneratedPassword list" where
  "legacy_list = [(full_entry 0)\<lparr>generated := 7\<rparr>, full_entry 1]"

definition busy_page :: page where
  "busy_page =
     run_page example_atob mock_digest idle_page
       [Call test_webauthn (js ''example.com'') 1, Call test_webauthn (js ''example.com'') 1]"

definition only_32 :: "assertion_request \<Rightarrow> bytes option" where
  "only_32 r = (if length (challengeBytes r) = 32 then Some [1, 2, 3, 4, 5, 6, 7, 8] else None)"

definition zero_hkdf :: "hkdf_request \<Rightarrow> js_error + bytes" where
  "zero_hkdf r =
     (if bits r mod 8 = 0 then Inr (replicate (bits r div 8) 0)
      else Inl (Error (js ''OperationError'')))"

definition answer_all :: "assertion_request \<Rightarrow> bytes option" where
  "answer_all r = Some [1, 2, 3, 4, 5, 6, 7, 8]"

definition answer_39 :: "assertion_request \<Rightarrow> bytes option" where
  "answer_39 r = (if length (challengeBytes r) = 39 then Some [1, 2, 3, 4, 5, 6, 7, 8] else None)"

definition auth_always :: "bytes \<Rightarrow> jsstring \<Rightarrow> bytes \<Rightarrow> js_error + bytes option" where
  "auth_always raw cid challenge = Inr (Some raw)"

definition auth_32 :: "bytes \<Rightarrow> jsstring \<Rightarrow> bytes \<Rightarrow> js_error + bytes option" where
  "auth_32 raw cid challenge = (if length challenge = 32 then Inr (Some raw) else Inr None)"

definition example_dictionary :: "ChineseCharEntry list" where
  "example_dictionary =
     [\<lparr>entry_char = [0x9F8D], pinyin = js ''Long'', tone = 2\<rparr>,
      \<lparr>entry_char = [0x5C71], pinyin = js ''Shan'', tone = 1\<rparr>,
      \<lparr>entry_char = [0x6CD5], pinyin = js ''Fa'', tone = 3\<rparr>]"

text \<open>Strings of code units below 128, which UTF-8 encodes as one byte each.\<close>

definition ascii :: "jsstring \<Rightarrow> bool" where
  "ascii us = list_all (\<lambda>u. unat u < 128) us"

text \<open>The invariant of the loop for a digest of \<open>n\<close> bytes.\<close>

definition loop_inv :: "nat \<Rightarrow> loop_state \<Rightarrow> bool" where
  "loop_inv n s = (length (mainHash s) = n \<and> set (loop_password s) \<subseteq> set allowedChars)"

section \<open>Properties\<close>

subsection \<open>The assertion normalizer\<close>

lemma getDeterministicAuthenticatorData_length:
  "length (getDeterministicAuthenticatorData a) = length a"
  by (simp add: getDeterministicAuthenticatorData_def)

lemma getDeterministicAuthenticatorData_nth:
  "i < length a \<Longrightarrow>
   getDeterministicAuthenticatorData a ! i = (if i \<in> {21, 22, 23, 24} then 0 else a ! i)"
  by (auto simp: getDeterministicAuthenticatorData_def nth_list_update)

lemma store_run:
  "getDeterministicAuthenticatorData_store h a =
     (lim h, h\<lparr>arrays := (arrays h)(lim h := getDeterministicAuthenticatorData (arrays h a)),
               lim := Suc (lim h)\<rparr>)"
  by (simp add: getDeterministicAuthenticatorData_store_def Uint8Array_from_def
      set_element_def getDeterministicAuthenticatorData_def)

lemma differ_only_at_zeroed_normalized:
  assumes "differ_only_at zeroed_bytes a b"
  shows "getDeterministicAuthenticatorData a = getDeterministicAuthenticatorData b"
proof (rule nth_equalityI)
  show "length (getDeterministicAuthenticatorData a) = length (getDeterministicAuthenticatorData b)"
    using assms by (simp add: differ_only_at_def getDeterministicAuthenticatorData_length)
next
  fix i assume "i < length (getDeterministicAuthenticatorData a)"
  then have i: "i < length a" by (simp add: getDeterministicAuthenticatorData_length)
  with assms have "i \<in> {21, 22, 23, 24} \<or> a ! i = b ! i" and "i < length b"
    by (auto simp: differ_only_at_def zeroed_bytes_def list_all_iff)
  with i show "getDeterministicAuthenticatorData a ! i = getDeterministicAuthenticatorData b ! i"
    by (auto simp: getDeterministicAuthenticatorData_nth)
qed

lemma getDeterministicAuthenticatorData_map:
  "getDeterministicAuthenticatorData a =
     map (\<lambda>i. if i \<in> {21, 22, 23, 24} then 0 else a ! i) [0 ..< length a]"
  by (rule nth_equalityI)
     (auto simp: getDeterministicAuthenticatorData_length getDeterministicAuthenticatorData_nth)

lemma counter_zero:
  "21 + 4 \<le> length a \<Longrightarrow> take 4 (drop 21 (getDeterministicAuthenticatorData a)) = [0, 0, 0, 0]"
  by (rule nth_equalityI)
     (auto simp: getDeterministicAuthenticatorData_length getDeterministicAuthenticatorData_nth
       less_Suc_eq numeral_eq_Suc)

text \<open>
  What the function does to an assertion of at least 25 bytes held at an allocated
  address: it returns a fresh address; the array there has the length of the input,
  its bytes 21 to 24 are zero and every other byte is the byte of the input; no array
  that existed before the call is changed, the input among them; and a second
  allocated assertion that differs from the first only in bytes 21 to 24 gives the
  same contents.
\<close>

lemma normalizer_zeroes_bytes_21_to_24:
  assumes "allocated h a" and "21 + 4 \<le> length (arrays h a)"
  shows "case getDeterministicAuthenticatorData_store h a of (d, h') \<Rightarrow>
           \<not> allocated h d \<and> allocated h' d \<and>
           (\<forall>x. allocated h x \<longrightarrow> arrays h' x = arrays h x) \<and>
           arrays h' a = arrays h a \<and>
           length (arrays h' d) = length (arrays h a) \<and>
           take 4 (drop 21 (arrays h' d)) = [0, 0, 0, 0] \<and>
           (\<forall>i < length (arrays h a).
              arrays h' d ! i = (if i \<in> {21, 22, 23, 24} then 0 else arrays h a ! i)) \<and>
           (\<forall>b. allocated h b \<and> differ_only_at zeroed_bytes (arrays h a) (arrays h b) \<longrightarrow>
              (case getDeterministicAuthenticatorData_store h' b of (d', h'') \<Rightarrow>
                 arrays h'' d' = arrays h' d \<and> arrays h'' d = arrays h' d))"
  using assms
  by (auto simp: store_run allocated_def getDeterministicAuthenticatorData_length
      getDeterministicAuthenticatorData_nth differ_only_at_zeroed_normalized counter_zero)

lemma normalizer_keeps_from_25:
  "drop 25 (getDeterministicAuthenticatorData a) = drop 25 a"
  by (simp add: getDeterministicAuthenticatorData_def drop_update_cancel)

lemma counter_store_signCount:
  "take 4 (drop 33 (arrays counter_store 0)) = [0, 0, 0, 1]"
  "take 4 (drop 33 (arrays counter_store 1)) = [0, 0, 0, 2]"
  by (simp_all add: counter_store_def example_assertion_def)

text \<open>
  C2 fails on the code. The counter of the authenticator data the function receives
  is in bytes 33 to 36, and the function leaves every byte from 25 on as it is. The
  two assertions of \<open>counter_store\<close> differ only in their counter bytes (counters 1 and
  2); after normalization each still holds its counter, not four zero bytes, and the
  two normalized buffers differ.
\<close>

theorem normalizer_leaves_signCount:
  "differ_only_at signCount_bytes (arrays counter_store 0) (arrays counter_store 1) \<and>
   take 4 (drop 33 (getDeterministicAuthenticatorData (arrays counter_store 0))) = [0, 0, 0, 1] \<and>
   take 4 (drop 33 (getDeterministicAuthenticatorData (arrays counter_store 1))) = [0, 0, 0, 2] \<and>
   getDeterministicAuthenticatorData (arrays counter_store 0) \<noteq>
     getDeterministicAuthenticatorData (arrays counter_store 1) \<and>
   drop 25 (getDeterministicAuthenticatorData a) = drop 25 a"
proof -
  have d: "differ_only_at signCount_bytes (arrays counter_store 0) (arrays counter_store 1)"
  proof -
    have "i \<in> signCount_bytes \<or>
          (take 33 example_assertion @ [0, 0, 0, 1]) ! i =
          (take 33 example_assertion @ [0, 0, 0, 2]) ! i" if "i < 37" for i
    proof (cases "i < 33")
      case True
      then show ?thesis by (simp add: nth_append example_assertion_def)
    next
      case False
      with that have "i = 33 \<or> i = 34 \<or> i = 35 \<or> i = 36" by arith
      then show ?thesis by (auto simp: signCount_bytes_def)
    qed
    then show ?thesis
      by (simp add: counter_store_def differ_only_at_def list_all_iff example_assertion_def)
  qed
  have keep: "take 4 (drop 33 (getDeterministicAuthenticatorData x)) = take 4 (drop 33 x)" for x
  proof -
    have "drop 33 (getDeterministicAuthenticatorData x) =
          drop 8 (drop 25 (getDeterministicAuthenticatorData x))"
      by simp
    also have "\<dots> = drop 8 (drop 25 x)" by (simp only: normalizer_keeps_from_25)
    also have "\<dots> = drop 33 x" by simp
    finally show ?thesis by simp
  qed
  have c0: "take 4 (drop 33 (getDeterministicAuthenticatorData (arrays counter_store 0))) =
            [0, 0, 0, 1]"
    and c1: "take 4 (drop 33 (getDeterministicAuthenticatorData (arrays counter_store 1))) =
            [0, 0, 0, 2]"
    by (simp_all only: keep counter_store_signCount)
  have ne: "getDeterministicAuthenticatorData (arrays counter_store 0) \<noteq>
            getDeterministicAuthenticatorData (arrays counter_store 1)"
  proof
    assume "getDeterministicAuthenticatorData (arrays counter_store 0) =
            getDeterministicAuthenticatorData (arrays counter_store 1)"
    with c0 c1 have "[0, 0, 0, 1] = [0, 0, 0, 2 :: byte]" by simp
    then show False by simp
  qed
  from d c0 c1 ne normalizer_keeps_from_25 [of a] show ?thesis by blast
qed

text \<open>
  C3 as stated fails: the normalizer has no length check. For the assertion of three
  bytes in \<open>short_store\<close>, shorter than the 25 bytes of offset plus counter, it returns a
  new array, allocated after the call, with the three bytes of the input.
\<close>

theorem normalizer_short_input_counterexample:
  "length (arrays short_store 0) < 21 + 4 \<and>
   getDeterministicAuthenticatorData_store short_store 0 =
     (1, \<lparr>arrays = (\<lambda>a. [])(0 := [1, 2, 3], 1 := [1, 2, 3]), lim = 2\<rparr>)"
  by (simp add: short_store_def getDeterministicAuthenticatorData_store_def
      Uint8Array_from_def set_element_def)

text \<open>
  C3 as amended. The normalizer never fails and checks no length: for every input, of
  any length, it returns a new array of the length of the input in which the bytes at
  those of the positions 21 to 24 that exist are zero and every other byte is the byte
  of the input.
\<close>

theorem normalizer_total:
  "getDeterministicAuthenticatorData_store h a =
     (lim h,
      h\<lparr>arrays := (arrays h)
           (lim h := map (\<lambda>i. if i \<in> {21, 22, 23, 24} then 0 else arrays h a ! i)
                       [0 ..< length (arrays h a)]),
        lim := Suc (lim h)\<rparr>)"
  unfolding store_run by (subst getDeterministicAuthenticatorData_map) (rule refl)

subsection \<open>The canonical service label\<close>

lemma String_split_not_Nil: "String_split sep s \<noteq> []"
  by (induction s) (auto split: list.splits)

lemma String_split_no_sep: "p \<in> set (String_split sep s) \<Longrightarrow> sep \<notin> set p"
  by (induction s arbitrary: p) (auto split: list.splits if_splits)

lemma String_join_split: "String_join sep (String_split sep s) = s"
proof (induction s)
  case Nil
  then show ?case by simp
next
  case (Cons c s)
  obtain p ps where ps: "String_split sep s = p # ps"
    using String_split_not_Nil [of sep s] by (cases "String_split sep s") auto
  with Cons show ?case by (cases ps) auto
qed

lemma String_split_length: "length (String_split sep s) = Suc (count_list s sep)"
  by (induction s) (auto split: list.splits simp: String_split_not_Nil)

lemma String_split_no_sep_whole: "sep \<notin> set s \<Longrightarrow> String_split sep s = [s]"
  by (induction s) auto

lemma String_split_prefix:
  "sep \<notin> set p \<Longrightarrow> String_split sep (p @ sep # r) = p # String_split sep r"
  by (induction p) auto

lemma String_split_join:
  "parts \<noteq> [] \<Longrightarrow> \<forall>p \<in> set parts. sep \<notin> set p \<Longrightarrow>
   String_split sep (String_join sep parts) = parts"
proof (induction sep parts rule: String_join.induct)
  case (1 sep)
  then show ?case by simp
next
  case (2 sep p)
  then show ?case by (simp add: String_split_no_sep_whole)
next
  case (3 sep p q ps)
  then show ?case by (simp add: String_split_prefix)
qed

lemma segments_of_split: "segments_of s (String_split dot s)"
  by (simp add: segments_of_def String_split_not_Nil String_join_split list_all_iff
      String_split_no_sep)

lemma segments_of_unique: "segments_of s parts \<Longrightarrow> parts = String_split dot s"
  using String_split_join [of parts dot] by (auto simp: segments_of_def list_all_iff)

text \<open>
  C4. Every service input has exactly one sequence of segments (non-empty, no segment
  with a dot, joined by dots they give the input), the one \<^verbatim>\<open>split('.')\<close> returns. With
  more than one segment the canonical label is the second-to-last segment, otherwise
  it is the whole input: "accounts.example.com" gives "example", "myservice" gives
  "myservice".
\<close>

theorem canonical_service_label:
  "segments_of s (String_split dot s) \<and>
   (\<forall>parts. segments_of s parts \<longrightarrow>
      parts = String_split dot s \<and>
      serviceName s = (if length parts > 1 then parts ! (length parts - 2) else s)) \<and>
   serviceName (js ''accounts.example.com'') = js ''example'' \<and>
   serviceName (js ''myservice'') = js ''myservice''"
proof -
  have "serviceName (js ''accounts.example.com'') = js ''example''"
    by (simp add: serviceName_def js_def dot_def)
  moreover have "serviceName (js ''myservice'') = js ''myservice''"
    by (simp add: serviceName_def js_def dot_def)
  moreover have "serviceName s = (if length parts > 1 then parts ! (length parts - 2) else s)"
    if "segments_of s parts" for parts
    using segments_of_unique [OF that] by (simp add: serviceName_def Let_def)
  ultimately show ?thesis
    using segments_of_split [of s] segments_of_unique [of s] by blast
qed

theorem canonical_service_label_witness:
  "segments_of (js ''accounts.example.com'') [js ''accounts'', js ''example'', js ''com''] \<and>
   String_split dot (js ''accounts.example.com'') = [js ''accounts'', js ''example'', js ''com''] \<and>
   serviceName (js ''accounts.example.com'') = js ''example''"
proof -
  have seg: "segments_of (js ''accounts.example.com'')
               [js ''accounts'', js ''example'', js ''com'']"
    by (simp add: segments_of_def js_def dot_def)
  from canonical_service_label [of "js ''accounts.example.com''"] seg show ?thesis
    by auto
qed

subsection \<open>The password stretcher\<close>

lemma allowedChars_length: "length allowedChars = 88"
  by (simp add: allowedChars_def js_def)

lemma allowedChars_printable: "\<forall>c \<in> set allowedChars. 32 < unat c \<and> unat c < 127"
  by (simp add: allowedChars_def js_def)

lemma allowedChars_nth_mem: "allowedChars ! (k mod length allowedChars) \<in> set allowedChars"
  by (rule nth_mem) (simp add: allowedChars_length)

lemma refill_inv:
  assumes "0 < n" and "\<forall>data. length (sha256 data) = n" and "loop_inv n s"
  shows "\<exists>s'. refill sha256 seedData s = Inr s' \<and> loop_inv n s' \<and>
           hashIndex s' < n \<and> loop_password s' = loop_password s"
  using assms by (auto simp: refill_def loop_inv_def Let_def)

lemma loop_body_inv:
  assumes "0 < n" and "\<forall>data. length (sha256 data) = n" and "loop_inv n s"
  shows "\<exists>s'. loop_body sha256 seedData s = Inr s' \<and> loop_inv n s' \<and>
           length (loop_password s') = Suc (length (loop_password s))"
proof -
  from refill_inv [OF assms, of seedData] obtain r where
    r: "refill sha256 seedData s = Inr r" "loop_inv n r" "hashIndex r < n"
       "loop_password r = loop_password s"
    by blast
  then have "loop_inv n (emit r)" "length (loop_password (emit r)) = Suc (length (loop_password s))"
    by (auto simp: emit_def loop_inv_def allowedChars_nth_mem)
  with r show ?thesis by (simp add: loop_body_def)
qed

lemma for_loop_inv:
  assumes "0 < n" and "\<forall>data. length (sha256 data) = n"
  shows "loop_inv n s \<Longrightarrow>
         \<exists>s'. for_loop sha256 seedData m s = Inr s' \<and> loop_inv n s' \<and>
           length (loop_password s') = length (loop_password s) + m"
proof (induction m arbitrary: s)
  case 0
  then show ?case by simp
next
  case (Suc m)
  from loop_body_inv [OF assms Suc.prems, of seedData] obtain r where
    r: "loop_body sha256 seedData s = Inr r" "loop_inv n r"
       "length (loop_password r) = Suc (length (loop_password s))"
    by blast
  from Suc.IH [OF r(2)] r show ?case by auto
qed


text \<open>
  C7. With a digest that returns the same positive number of bytes for every input (32
  for SHA-256), the stretcher returns, for every entropy, service name and version, a
  password of exactly 20 characters, each one a member of \<open>allowedChars\<close>, whose 88
  characters are printable ASCII. A digest shorter than 20 bytes makes the loop take
  the refill branch, and the result still has 20 characters of the alphabet.
\<close>

theorem stretcher_length_alphabet:
  assumes "0 < n" and "\<forall>data. length (sha256 data) = n"
  shows "\<exists>password. generatePasswordFromEntropy sha256 entropy fullServiceName ver = Inr password
           \<and> length password = 20 \<and> set password \<subseteq> set allowedChars
           \<and> (\<forall>c \<in> set password. 32 < unat c \<and> unat c < 127)"
proof -
  define seed where "seed = seedData_of entropy (serviceName fullServiceName) ver"
  define s0 where "s0 = \<lparr>mainHash = sha256 seed, hashIndex = 0, loop_password = [],
              digest_inputs = [seed]\<rparr>"
  have "loop_inv n s0" using assms by (simp add: loop_inv_def s0_def)
  from for_loop_inv [OF assms this, of seed 20] obtain s' where
    s': "for_loop sha256 seed 20 s0 = Inr s'" "loop_inv n s'" "length (loop_password s') = 20"
    unfolding s0_def by auto
  have "generatePasswordFromEntropy sha256 entropy fullServiceName ver = Inr (loop_password s')"
    unfolding generatePasswordFromEntropy_def generatePasswordFromEntropy_run_def Let_def
      seed_def [symmetric] s0_def [symmetric] s'(1) by simp
  moreover from s' have sub: "set (loop_password s') \<subseteq> set allowedChars"
    by (simp add: loop_inv_def)
  moreover from sub allowedChars_printable
  have "\<forall>c \<in> set (loop_password s'). 32 < unat c \<and> unat c < 127"
    by blast
  ultimately show ?thesis
    using s'(3) by blast
qed

lemma mock_digest_length: "length (mock_digest data) = 32"
  by (simp add: mock_digest_def)

lemma for_loop_no_refill:
  "hashIndex s + m \<le> length (mainHash s) \<Longrightarrow>
   for_loop sha256 seedData m s =
     Inr (s\<lparr>loop_password := loop_password s @
              map (\<lambda>b. allowedChars ! (unat b mod length allowedChars))
                (take m (drop (hashIndex s) (mainHash s))),
            hashIndex := hashIndex s + m\<rparr>)"
proof (induction m arbitrary: s)
  case 0
  then show ?case by simp
next
  case (Suc m)
  then have lt: "hashIndex s < length (mainHash s)" by simp
  then have body: "loop_body sha256 seedData s = Inr (emit s)"
    by (simp add: loop_body_def refill_def)
  have "hashIndex (emit s) + m \<le> length (mainHash (emit s))"
    using Suc.prems by (simp add: emit_def)
  from Suc.IH [OF this] body lt show ?case
    by (simp add: emit_def Cons_nth_drop_Suc [symmetric])
qed



lemma mock_password:
  "generatePasswordFromEntropy mock_digest e s v = Inr (replicate 20 (allowedChars ! 0))"
proof -
  define seed where "seed = seedData_of e (serviceName s) v"
  define s0 where "s0 = \<lparr>mainHash = mock_digest seed, hashIndex = 0, loop_password = [],
              digest_inputs = [seed]\<rparr>"
  have "hashIndex s0 + 20 \<le> length (mainHash s0)" by (simp add: s0_def mock_digest_def)
  note r = for_loop_no_refill [OF this, of mock_digest seed]
  have "generatePasswordFromEntropy_run mock_digest e s v = for_loop mock_digest seed 20 s0"
    unfolding generatePasswordFromEntropy_run_def Let_def seed_def [symmetric] s0_def [symmetric]
    by (rule refl)
  then show ?thesis
    unfolding generatePasswordFromEntropy_def r
    by (simp add: s0_def mock_digest_def map_replicate_const)
qed

theorem stretcher_length_alphabet_witness:
  "(0::nat) < 32 \<and> (\<forall>data. length (mock_digest data) = 32) \<and>
   generatePasswordFromEntropy mock_digest [1, 2, 3, 4, 5, 6, 7, 8] (js ''example.com'') 1 =
     Inr (replicate 20 (allowedChars ! 0)) \<and>
   (\<exists>password. generatePasswordFromEntropy mock_digest [1, 2, 3, 4, 5, 6, 7, 8]
        (js ''example.com'') 1 = Inr password
      \<and> length password = 20 \<and> set password \<subseteq> set allowedChars)"
proof -
  have pos: "(0::nat) < 32" by simp
  have len: "\<forall>data. length (mock_digest data) = 32" by (simp add: mock_digest_length)
  from pos len stretcher_length_alphabet [OF pos len] mock_password show ?thesis by blast
qed

text \<open>
  C10. With a digest of 32 bytes the refill branch is never taken: the only input given
  to the digest is the seed data, and the password is the one of the simple function
  that maps each of the first 20 bytes of the digest of (entropy, UTF-8 bytes of the
  canonical label, UTF-8 bytes of "v" and the version) through the byte modulo the
  length of the alphabet to a character of the alphabet.
\<close>

theorem stretcher_is_simple:
  assumes "\<forall>data. length (sha256 data) = 32"
  shows "generatePasswordFromEntropy sha256 entropy fullServiceName ver =
           Inr (simple_stretcher sha256 entropy fullServiceName ver)
         \<and> (\<exists>s. generatePasswordFromEntropy_run sha256 entropy fullServiceName ver = Inr s \<and>
               digest_inputs s = [seedData_of entropy (serviceName fullServiceName) ver])"
proof -
  define seed where "seed = seedData_of entropy (serviceName fullServiceName) ver"
  define s0 where "s0 = \<lparr>mainHash = sha256 seed, hashIndex = 0, loop_password = [],
              digest_inputs = [seed]\<rparr>"
  define s1 where "s1 = s0\<lparr>loop_password := loop_password s0 @
              map (\<lambda>b. allowedChars ! (unat b mod length allowedChars))
                (take 20 (drop (hashIndex s0) (mainHash s0))),
            hashIndex := hashIndex s0 + 20\<rparr>"
  have "hashIndex s0 + 20 \<le> length (mainHash s0)" using assms by (simp add: s0_def)
  note r = for_loop_no_refill [OF this, of sha256 seed]
  have run: "generatePasswordFromEntropy_run sha256 entropy fullServiceName ver = Inr s1"
    unfolding generatePasswordFromEntropy_run_def Let_def seed_def [symmetric] s0_def [symmetric]
      s1_def by (rule r)
  have simple: "simple_stretcher sha256 entropy fullServiceName ver =
      map (\<lambda>b. allowedChars ! (unat b mod length allowedChars)) (take 20 (sha256 seed))"
    unfolding simple_stretcher_def seed_def seedData_of_def by (rule refl)
  have pw: "loop_password s1 = simple_stretcher sha256 entropy fullServiceName ver"
    unfolding simple by (simp add: s1_def s0_def)
  have calls: "digest_inputs s1 = [seed]"
    by (simp add: s1_def s0_def)
  have "generatePasswordFromEntropy sha256 entropy fullServiceName ver =
          Inr (loop_password s1)"
    unfolding generatePasswordFromEntropy_def run by simp
  with pw run calls show ?thesis
    unfolding seed_def by simp
qed

theorem stretcher_is_simple_witness:
  "(\<forall>data. length (mock_digest data) = 32) \<and>
   generatePasswordFromEntropy mock_digest [1, 2, 3, 4, 5, 6, 7, 8] (js ''example.com'') 1 =
     Inr (simple_stretcher mock_digest [1, 2, 3, 4, 5, 6, 7, 8] (js ''example.com'') 1)"
proof -
  have len: "\<forall>data. length (mock_digest data) = 32" by (simp add: mock_digest_length)
  from len stretcher_is_simple [OF len] show ?thesis by blast
qed

subsection \<open>One call of generatePassword\<close>

lemma hasCredentials_primary:
  "hasCredentials ws \<Longrightarrow> primaryCredential ws = Some (hd (credentials ws))"
  by (cases "credentials ws") (simp_all add: hasCredentials_def primaryCredential_def)

lemma generatePassword_start_supported:
  assumes "hasCredentials ws" and "isSupported ws"
    and "atob (cred_id (hd (credentials ws))) = Some binary"
  shows "generatePassword_start ws atob st s v =
     Awaiting \<lparr>request = \<lparr>allowCredential = Uint8Array_from_string binary,
                            challengeBytes = TextEncoder_encode (challenge_string s v)\<rparr>,
               call_service = s, call_version = v,
               call_credentialId = cred_id (hd (credentials ws))\<rparr>
       (st\<lparr>isGenerating := True, lastError := None\<rparr>)"
  using assms
  by (simp add: generatePassword_start_def hasCredentials_primary getEntropy_request_def Let_def)

lemma test_webauthn_ready:
  "hasCredentials test_webauthn" "isSupported test_webauthn"
  "example_atob (cred_id (hd (credentials test_webauthn))) = Some (js ''test-id'')"
  by (simp_all add: hasCredentials_def test_webauthn_def example_atob_def)

lemma start_test:
  "generatePassword_start test_webauthn example_atob st s v =
     Awaiting \<lparr>request = \<lparr>allowCredential = test_id_bytes,
                            challengeBytes = TextEncoder_encode (challenge_string s v)\<rparr>,
               call_service = s, call_version = v,
               call_credentialId = js ''dGVzdC1pZA==''\<rparr>
       (st\<lparr>isGenerating := True, lastError := None\<rparr>)"
  unfolding generatePassword_start_supported [where ws = test_webauthn and atob = example_atob
      and binary = "js ''test-id''", OF test_webauthn_ready] test_id_bytes_def
  by (simp add: test_webauthn_def)

lemma generatePassword_supported:
  assumes "hasCredentials ws" and "isSupported ws"
    and "atob (cred_id (hd (credentials ws))) = Some binary"
  shows "generatePassword ws atob nav sha256 now st s v =
     generatePassword_resume sha256 now
       \<lparr>request = \<lparr>allowCredential = Uint8Array_from_string binary,
                            challengeBytes = TextEncoder_encode (challenge_string s v)\<rparr>,
               call_service = s, call_version = v,
               call_credentialId = cred_id (hd (credentials ws))\<rparr>
       (nav \<lparr>allowCredential = Uint8Array_from_string binary,
             challengeBytes = TextEncoder_encode (challenge_string s v)\<rparr>)
       (st\<lparr>isGenerating := True, lastError := None\<rparr>)"
  unfolding generatePassword_def
    generatePassword_start_supported [where ws = ws and atob = atob and binary = binary, OF assms]
  by simp



subsection \<open>The stored list of passwords\<close>




























lemma reload_legacy:
  "list_ok legacy_list \<and> \<not> list_ok (passwords (new_store (Some legacy_list)))"
  by (simp add: legacy_list_def list_ok_def entry_key_def full_entry_def new_store_def
      loadPasswords_def initial_store_def)




subsection \<open>The challenge presented to the authenticator\<close>

lemma utf8_unit_ascii: "unat u < 128 \<Longrightarrow> utf8_unit u = [of_nat (unat u)]"
  by (simp add: utf8_unit_def utf8_scalar_def is_high_surrogate_def is_low_surrogate_def)

lemma TextEncoder_encode_ascii:
  "ascii us \<Longrightarrow> TextEncoder_encode us = map (\<lambda>u. of_nat (unat u)) us"
proof (induction us rule: TextEncoder_encode.induct)
  case 1
  then show ?case by simp
next
  case (2 u)
  then show ?case by (simp add: ascii_def utf8_unit_ascii)
next
  case (3 u v rest)
  then have "\<not> is_high_surrogate u" by (simp add: ascii_def is_high_surrogate_def)
  with 3 show ?case by (simp add: ascii_def utf8_unit_ascii)
qed

lemma ascii_append: "ascii (a @ b) = (ascii a \<and> ascii b)"
  by (simp add: ascii_def)

lemma ascii_js_example: "ascii (js ''YubiKeyPasswordGenerator-example.com-v1'')"
  by (simp add: ascii_def js_def)

lemma js_append: "js (a @ b) = js a @ js b"
  by (simp add: js_def)

lemma Number_toString_1: "Number_toString 1 = js ''1''"
  by (subst Number_toString.simps) (simp add: js_def digit_unit_def)

lemma challenge_example:
  "challenge_string (js ''example.com'') 1 = js ''YubiKeyPasswordGenerator-example.com-v1''"
  unfolding challenge_string_def Number_toString_1 js_append [symmetric] by simp

lemma challenge_example_bytes:
  "length (TextEncoder_encode (js ''YubiKeyPasswordGenerator-example.com-v1'')) = 39"
  by (simp add: TextEncoder_encode_ascii [OF ascii_js_example]) (simp add: js_def)

text \<open>
  C5 as stated fails. The password store presents the UTF-8 bytes of the text
  "YubiKeyPasswordGenerator-", the service input as typed, "-v" and the version: for
  "example.com" and version 1 these are 39 bytes, not a digest of 32, so an
  authenticator that answers only challenges of 32 bytes gives \<^verbatim>\<open>generatePassword\<close> no
  entropy.
\<close>

theorem password_challenge_counterexample:
  "fst (generatePassword test_webauthn example_atob only_32 mock_digest 0 initial_store (js ''example.com'') 1)
     = None \<and>
   getEntropy_request test_webauthn example_atob (js ''dGVzdC1pZA=='') (challenge_string (js ''example.com'') 1) =
     Some \<lparr>allowCredential = test_id_bytes,
           challengeBytes = TextEncoder_encode (js ''YubiKeyPasswordGenerator-example.com-v1'')\<rparr> \<and>
   length (TextEncoder_encode (js ''YubiKeyPasswordGenerator-example.com-v1'')) = 39"
proof -
  have "only_32 \<lparr>allowCredential = test_id_bytes,
           challengeBytes = TextEncoder_encode (js ''YubiKeyPasswordGenerator-example.com-v1'')\<rparr>
        = None"
    by (simp add: only_32_def challenge_example_bytes)
  then have "fst (generatePassword test_webauthn example_atob only_32 mock_digest 0 initial_store
                (js ''example.com'') 1) = None"
    unfolding generatePassword_def start_test started.case challenge_example
    by (simp add: generatePassword_resume_def)
  moreover have "getEntropy_request test_webauthn example_atob (js ''dGVzdC1pZA=='')
        (challenge_string (js ''example.com'') 1) =
     Some \<lparr>allowCredential = test_id_bytes,
           challengeBytes = TextEncoder_encode (js ''YubiKeyPasswordGenerator-example.com-v1'')\<rparr>"
    unfolding getEntropy_request_def challenge_example
    by (simp add: test_webauthn_def example_atob_def test_id_bytes_def)
  ultimately show ?thesis by (simp add: challenge_example_bytes)
qed

lemma generateCodename_try_auth:
  assumes "auth cid (sha256 (TextEncoder_encode d)) = auth' cid (sha256 (TextEncoder_encode d))"
  shows "generateCodename_try sha256 auth deriveBits dict cid d =
         generateCodename_try sha256 auth' deriveBits dict cid d"
  unfolding generateCodename_try_def generateDeterministicChallenge_def Let_def assms
  by (rule refl)

text \<open>
  C5 as amended. In the codename service the challenge is the digest of the UTF-8
  bytes of the domain string as given, with no canonical label taken: 32 bytes when
  the digest has 32, and the only challenge on which the result of \<^verbatim>\<open>generateCodename\<close>
  depends on the authenticator. In the password store the one request on which the
  result of \<^verbatim>\<open>generatePassword\<close> depends on the authenticator has as its challenge the
  UTF-8 bytes of "YubiKeyPasswordGenerator-", the service input, "-v" and the decimal
  version, and is no digest.
\<close>

theorem challenge_presented:
  "generateDeterministicChallenge digest d = digest (TextEncoder_encode d) \<and>
   ((\<forall>data. length (digest data) = 32) \<longrightarrow>
      length (generateDeterministicChallenge digest d) = 32) \<and>
   (auth cid (digest (TextEncoder_encode d)) = auth' cid (digest (TextEncoder_encode d)) \<longrightarrow>
      generateCodename digest auth deriveBits dict cid d =
      generateCodename digest auth' deriveBits dict cid d) \<and>
   (hasCredentials ws \<and> isSupported ws \<and>
    atob (cred_id (hd (credentials ws))) = Some binary \<and>
    nav \<lparr>allowCredential = Uint8Array_from_string binary,
         challengeBytes = TextEncoder_encode
           (js ''YubiKeyPasswordGenerator-'' @ s @ js ''-v'' @ Number_toString v)\<rparr> =
    nav' \<lparr>allowCredential = Uint8Array_from_string binary,
          challengeBytes = TextEncoder_encode
           (js ''YubiKeyPasswordGenerator-'' @ s @ js ''-v'' @ Number_toString v)\<rparr> \<longrightarrow>
      generatePassword ws atob nav digest now st s v =
      generatePassword ws atob nav' digest now st s v)"
proof (intro conjI impI)
  show "generateDeterministicChallenge digest d = digest (TextEncoder_encode d)"
    by (simp add: generateDeterministicChallenge_def)
next
  assume "\<forall>data. length (digest data) = 32"
  then show "length (generateDeterministicChallenge digest d) = 32"
    by (simp add: generateDeterministicChallenge_def)
next
  assume h: "auth cid (digest (TextEncoder_encode d)) = auth' cid (digest (TextEncoder_encode d))"
  show "generateCodename digest auth deriveBits dict cid d =
      generateCodename digest auth' deriveBits dict cid d"
    unfolding generateCodename_def
      generateCodename_try_auth [of auth cid digest d auth' deriveBits dict, OF h]
    by (rule refl)
next
  assume a: "hasCredentials ws \<and> isSupported ws \<and>
    atob (cred_id (hd (credentials ws))) = Some binary \<and>
    nav \<lparr>allowCredential = Uint8Array_from_string binary,
         challengeBytes = TextEncoder_encode
           (js ''YubiKeyPasswordGenerator-'' @ s @ js ''-v'' @ Number_toString v)\<rparr> =
    nav' \<lparr>allowCredential = Uint8Array_from_string binary,
          challengeBytes = TextEncoder_encode
           (js ''YubiKeyPasswordGenerator-'' @ s @ js ''-v'' @ Number_toString v)\<rparr>"
  then have c: "hasCredentials ws" and i: "isSupported ws"
    and b: "atob (cred_id (hd (credentials ws))) = Some binary"
    and eq: "nav \<lparr>allowCredential = Uint8Array_from_string binary,
         challengeBytes = TextEncoder_encode (challenge_string s v)\<rparr> =
    nav' \<lparr>allowCredential = Uint8Array_from_string binary,
          challengeBytes = TextEncoder_encode (challenge_string s v)\<rparr>"
    unfolding challenge_string_def by blast+
  show "generatePassword ws atob nav digest now st s v =
        generatePassword ws atob nav' digest now st s v"
    unfolding generatePassword_supported [where ws = ws and atob = atob and binary = binary, OF c i b]
      eq
    by (rule refl)
qed

theorem challenge_presented_witness:
  "(\<forall>data. length (mock_digest data) = 32) \<and>
   length (generateDeterministicChallenge mock_digest (js ''example.com'')) = 32 \<and>
   generateCodename mock_digest (auth_always example_assertion) zero_hkdf example_dictionary
       (js ''0a1b2c'') (js ''example.com'') =
     generateCodename mock_digest (auth_32 example_assertion) zero_hkdf example_dictionary
       (js ''0a1b2c'') (js ''example.com'') \<and>
   hasCredentials test_webauthn \<and> isSupported test_webauthn \<and>
   example_atob (cred_id (hd (credentials test_webauthn))) = Some (js ''test-id'') \<and>
   generatePassword test_webauthn example_atob answer_all mock_digest 0 initial_store
       (js ''example.com'') 1 =
     generatePassword test_webauthn example_atob answer_39 mock_digest 0 initial_store
       (js ''example.com'') 1"
proof -
  note th = challenge_presented [where digest = mock_digest and d = "js ''example.com''"
      and auth = "auth_always example_assertion" and auth' = "auth_32 example_assertion"
      and cid = "js ''0a1b2c''" and deriveBits = zero_hkdf and dict = example_dictionary
      and ws = test_webauthn and atob = example_atob and binary = "js ''test-id''"
      and nav = answer_all and nav' = answer_39
      and s = "js ''example.com''" and v = 1 and now = 0 and st = initial_store]
  have len: "\<forall>data. length (mock_digest data) = 32" by (simp add: mock_digest_def)
  have auth: "auth_always example_assertion (js ''0a1b2c'')
                (mock_digest (TextEncoder_encode (js ''example.com''))) =
              auth_32 example_assertion (js ''0a1b2c'')
                (mock_digest (TextEncoder_encode (js ''example.com'')))"
    by (simp add: auth_always_def auth_32_def mock_digest_def)
  note c = test_webauthn_ready(1) and s = test_webauthn_ready(2) and b = test_webauthn_ready(3)
  have "length (TextEncoder_encode
           (js ''YubiKeyPasswordGenerator-'' @ js ''example.com'' @ js ''-v'' @ Number_toString 1))
        = 39"
    using challenge_example challenge_example_bytes by (simp only: challenge_string_def)
  then have nav: "answer_all \<lparr>allowCredential = Uint8Array_from_string (js ''test-id''),
         challengeBytes = TextEncoder_encode
           (js ''YubiKeyPasswordGenerator-'' @ js ''example.com'' @ js ''-v'' @ Number_toString 1)\<rparr> =
    answer_39 \<lparr>allowCredential = Uint8Array_from_string (js ''test-id''),
          challengeBytes = TextEncoder_encode
           (js ''YubiKeyPasswordGenerator-'' @ js ''example.com'' @ js ''-v'' @ Number_toString 1)\<rparr>"
    by (simp add: answer_all_def answer_39_def)
  note c2 = th [THEN conjunct2]
  note c3 = c2 [THEN conjunct2]
  from c2 [THEN conjunct1, THEN mp, OF len] c3 [THEN conjunct1, THEN mp, OF auth]
    c3 [THEN conjunct2, THEN mp, OF conjI [OF c conjI [OF s conjI [OF b nav]]]] len c s b
  show ?thesis by blast
qed

subsection \<open>Seed derivation\<close>

lemma digits_js: "js ''0123456789'' = map digit_unit [0 ..< 10]"
  by (simp add: js_def digit_unit_def upt_rec)

lemma digit_unit_mem: "d < 10 \<Longrightarrow> digit_unit d \<in> set (js ''0123456789'')"
  unfolding digits_js by simp

lemma Number_toString_not_Nil: "Number_toString n \<noteq> []"
  by (subst Number_toString.simps) simp

lemma Number_toString_last: "last (Number_toString n) \<in> set (js ''0123456789'')"
proof (cases "n < 10")
  case True
  then have "Number_toString n = [digit_unit n]" by (subst Number_toString.simps) simp
  with True show ?thesis by (simp add: digit_unit_mem)
next
  case False
  then have "Number_toString n = Number_toString (n div 10) @ [digit_unit (n mod 10)]"
    by (subst Number_toString.simps) simp
  moreover have "n mod 10 < 10" by simp
  ultimately show ?thesis by (simp add: digit_unit_mem)
qed

lemma decimal_suffix_last: "last (c @ Number_toString n) \<in> set (js ''0123456789'')"
  by (simp add: Number_toString_not_Nil Number_toString_last)

text \<open>
  C6 as stated fails. The info given to HKDF is the UTF-8 encoding of the constant
  "encryptio-codename-generation" alone. A constant followed by a version in decimal
  ends in a digit (\<open>decimal_suffix_last\<close>); this text ends in "n".
\<close>

theorem hkdf_info_counterexample:
  "info (params (deriveMasterSeed_request example_assertion (js ''example''))) =
     TextEncoder_encode (js ''encryptio-codename-generation'') \<and>
   last (js ''encryptio-codename-generation'') \<notin> set (js ''0123456789'')"
  by (simp add: deriveMasterSeed_request_def) (simp add: js_def)

text \<open>
  C6 as amended. Seed derivation is one call of the platform's HKDF with SHA-256,
  whose key material is the assertion bytes given, whose salt is the UTF-8 encoding of
  the domain string given, whose info is the UTF-8 encoding of the constant
  "encryptio-codename-generation", with no version, and which asks for 512 bits; so
  the result is determined by the assertion bytes and the domain string, and when the
  platform returns as many bits as asked the seed has exactly 64 bytes.
\<close>

theorem seed_derivation:
  "deriveMasterSeed deriveBits a d =
     deriveBits \<lparr>params = \<lparr>hash = js ''SHA-256'', salt = TextEncoder_encode d,
                            info = TextEncoder_encode (js ''encryptio-codename-generation'')\<rparr>,
                 keyMaterial = a, bits = 512\<rparr> \<and>
   ((\<forall>r out. deriveBits r = Inr out \<longrightarrow> 8 * length out = bits r) \<longrightarrow>
    (\<forall>seed. deriveMasterSeed deriveBits a d = Inr seed \<longrightarrow> length seed = 64))"
proof (intro conjI impI allI)
  show "deriveMasterSeed deriveBits a d =
     deriveBits \<lparr>params = \<lparr>hash = js ''SHA-256'', salt = TextEncoder_encode d,
                            info = TextEncoder_encode (js ''encryptio-codename-generation'')\<rparr>,
                 keyMaterial = a, bits = 512\<rparr>"
    by (simp add: deriveMasterSeed_def deriveMasterSeed_request_def)
next
  fix seed
  assume c: "\<forall>r out. deriveBits r = Inr out \<longrightarrow> 8 * length out = bits r"
    and s: "deriveMasterSeed deriveBits a d = Inr seed"
  from s have "deriveBits (deriveMasterSeed_request a d) = Inr seed"
    by (simp add: deriveMasterSeed_def)
  with c have "8 * length seed = bits (deriveMasterSeed_request a d)" by blast
  then show "length seed = 64" by (simp add: deriveMasterSeed_request_def)
qed

theorem seed_derivation_witness:
  "deriveMasterSeed zero_hkdf example_assertion (js ''example'') = Inr (replicate 64 0) \<and>
   length (replicate 64 (0::byte)) = 64"
proof -
  have c: "\<forall>r out. zero_hkdf r = Inr out \<longrightarrow> 8 * length out = bits r"
    by (auto simp: zero_hkdf_def split: if_splits)
  have s: "deriveMasterSeed zero_hkdf example_assertion (js ''example'') = Inr (replicate 64 0)"
    by (simp add: deriveMasterSeed_def deriveMasterSeed_request_def zero_hkdf_def)
  from seed_derivation [of zero_hkdf example_assertion "js ''example''"] c s show ?thesis
    by simp
qed

subsection \<open>Calls that overlap\<close>

text \<open>
  C8 as stated fails. After two calls of \<^verbatim>\<open>generatePassword\<close> on an idle page, with no
  answer of the authenticator in between, two authenticator interactions for the
  same credential are in flight, and no error is recorded: the second call was
  neither queued nor rejected.
\<close>

theorem concurrent_calls_counterexample:
  "length (in_flight busy_page) = 2 \<and>
   map call_credentialId (in_flight busy_page) = [js ''dGVzdC1pZA=='', js ''dGVzdC1pZA==''] \<and>
   map (allowCredential \<circ> request) (in_flight busy_page) = [test_id_bytes, test_id_bytes] \<and>
   lastError (pstore busy_page) = None"
  by (simp add: busy_page_def run_page_def idle_page_def start_test)

text \<open>
  C8 as amended. \<^verbatim>\<open>generatePassword\<close> neither queues nor rejects a call: with a
  credential registered whose id \<^verbatim>\<open>atob\<close> accepts and WebAuthn supported, every call
  begins its own authenticator interaction at once, whatever \<^verbatim>\<open>isGenerating\<close> is and
  however many interactions are in flight; it sets \<^verbatim>\<open>isGenerating\<close> and clears
  \<^verbatim>\<open>lastError\<close>.
\<close>

theorem call_starts_interaction:
  assumes "hasCredentials ws" and "isSupported ws"
    and "atob (cred_id (hd (credentials ws))) = Some binary"
  shows "page_step atob sha256 pg (Call ws s v) =
           pg\<lparr>pstore := (pstore pg)\<lparr>isGenerating := True, lastError := None\<rparr>,
              in_flight := in_flight pg @
                [\<lparr>request = \<lparr>allowCredential = Uint8Array_from_string binary,
                              challengeBytes = TextEncoder_encode (challenge_string s v)\<rparr>,
                  call_service = s, call_version = v,
                  call_credentialId = cred_id (hd (credentials ws))\<rparr>]\<rparr>"
  by (simp add:
      generatePassword_start_supported [where ws = ws and atob = atob and binary = binary, OF assms])

theorem call_starts_interaction_witness:
  "hasCredentials test_webauthn \<and> isSupported test_webauthn \<and>
   example_atob (cred_id (hd (credentials test_webauthn))) = Some (js ''test-id'') \<and>
   isGenerating (pstore busy_page) \<and> length (in_flight busy_page) = 2 \<and>
   length (in_flight (page_step example_atob mock_digest busy_page
                        (Call test_webauthn (js ''example.com'') 1))) = 3"
proof -
  note c = test_webauthn_ready(1) and s = test_webauthn_ready(2) and a = test_webauthn_ready(3)
  have b: "isGenerating (pstore busy_page)" "length (in_flight busy_page) = 2"
    by (simp_all add: busy_page_def run_page_def idle_page_def start_test)
  from c s a b show ?thesis
    by (simp only: call_starts_interaction [where ws = test_webauthn and atob = example_atob
          and binary = "js ''test-id''", OF c s a]) simp
qed

subsection \<open>Determinism\<close>

lemma generatePasswordFromEntropy_label:
  "serviceName s1 = serviceName s2 \<Longrightarrow>
   generatePasswordFromEntropy sha256 e s1 v = generatePasswordFromEntropy sha256 e s2 v"
  by (simp add: generatePasswordFromEntropy_def generatePasswordFromEntropy_run_def)

lemma generatePassword_resume_result:
  "fst (generatePassword_resume sha256 now call (Some e) st) =
     (case generatePasswordFromEntropy sha256 e (call_service call) (call_version call) of
        Inl error \<Rightarrow> None | Inr pw \<Rightarrow> Some pw)"
  by (simp add: generatePassword_resume_def Let_def split: sum.splits)

lemma generateCodename_normalized:
  assumes "getDeterministicAuthenticatorData raw1 = getDeterministicAuthenticatorData raw2"
    and "auth1 cid1 (generateDeterministicChallenge sha256 d) = Inr (Some raw1)"
    and "auth2 cid2 (generateDeterministicChallenge sha256 d) = Inr (Some raw2)"
  shows "generateCodename sha256 auth1 deriveBits dict cid1 d =
         generateCodename sha256 auth2 deriveBits dict cid2 d"
  unfolding generateCodename_def generateCodename_try_def Let_def assms(2,3) and_then_def
    sum.case option.case assms(1)
  by (rule refl)

text \<open>
  C1. Two runs of the password pipeline that receive the same entropy bytes, for
  service inputs with the same canonical label and the same version, return the same
  password, whatever the stores, the credentials, the authenticators and the times of
  the two runs are: the password is the one \<^verbatim>\<open>generatePasswordFromEntropy\<close> computes
  from the entropy, the label and the version. Two runs of the codename pipeline for
  the same domain string whose assertions have the same normalized bytes return the
  same codename (or fail alike), whatever the credentials and the bytes that
  normalization sets to zero are. No other input, and no random value, enters either
  result.
\<close>

theorem generation_deterministic:
  "(hasCredentials wsA \<and> isSupported wsA \<and> hasCredentials wsB \<and> isSupported wsB \<and>
    atob (cred_id (hd (credentials wsA))) = Some binaryA \<and>
    atob (cred_id (hd (credentials wsB))) = Some binaryB \<and>
    navA \<lparr>allowCredential = Uint8Array_from_string binaryA,
          challengeBytes = TextEncoder_encode (challenge_string sA v)\<rparr> = Some e \<and>
    navB \<lparr>allowCredential = Uint8Array_from_string binaryB,
          challengeBytes = TextEncoder_encode (challenge_string sB v)\<rparr> = Some e \<and>
    serviceName sA = serviceName sB \<longrightarrow>
      generatePasswordFromEntropy digest e sA v = generatePasswordFromEntropy digest e sB v \<and>
      fst (generatePassword wsA atob navA digest nowA stA sA v) =
        fst (generatePassword wsB atob navB digest nowB stB sB v) \<and>
      fst (generatePassword wsA atob navA digest nowA stA sA v) =
        (case generatePasswordFromEntropy digest e sA v of
           Inl error \<Rightarrow> None | Inr pw \<Rightarrow> Some pw)) \<and>
   (getDeterministicAuthenticatorData rawA = getDeterministicAuthenticatorData rawB \<and>
    authA cidA (generateDeterministicChallenge digest d) = Inr (Some rawA) \<and>
    authB cidB (generateDeterministicChallenge digest d) = Inr (Some rawB) \<longrightarrow>
      generateCodename digest authA deriveBits dict cidA d =
      generateCodename digest authB deriveBits dict cidB d)"
proof (intro conjI impI)
  assume a: "hasCredentials wsA \<and> isSupported wsA \<and> hasCredentials wsB \<and> isSupported wsB \<and>
    atob (cred_id (hd (credentials wsA))) = Some binaryA \<and>
    atob (cred_id (hd (credentials wsB))) = Some binaryB \<and>
    navA \<lparr>allowCredential = Uint8Array_from_string binaryA,
          challengeBytes = TextEncoder_encode (challenge_string sA v)\<rparr> = Some e \<and>
    navB \<lparr>allowCredential = Uint8Array_from_string binaryB,
          challengeBytes = TextEncoder_encode (challenge_string sB v)\<rparr> = Some e \<and>
    serviceName sA = serviceName sB"
  then have c1: "hasCredentials wsA" and i1: "isSupported wsA"
    and c2: "hasCredentials wsB" and i2: "isSupported wsB"
    and b1: "atob (cred_id (hd (credentials wsA))) = Some binaryA"
    and b2: "atob (cred_id (hd (credentials wsB))) = Some binaryB"
    and n1: "navA \<lparr>allowCredential = Uint8Array_from_string binaryA,
          challengeBytes = TextEncoder_encode (challenge_string sA v)\<rparr> = Some e"
    and n2: "navB \<lparr>allowCredential = Uint8Array_from_string binaryB,
          challengeBytes = TextEncoder_encode (challenge_string sB v)\<rparr> = Some e"
    and lab: "serviceName sA = serviceName sB"
    by blast+
  show same: "generatePasswordFromEntropy digest e sA v = generatePasswordFromEntropy digest e sB v"
    using lab by (rule generatePasswordFromEntropy_label)
  have r1: "fst (generatePassword wsA atob navA digest nowA stA sA v) =
        (case generatePasswordFromEntropy digest e sA v of
           Inl error \<Rightarrow> None | Inr pw \<Rightarrow> Some pw)"
    unfolding generatePassword_supported [where ws = wsA and atob = atob and binary = binaryA,
        OF c1 i1 b1] n1 generatePassword_resume_result
    by simp
  have r2: "fst (generatePassword wsB atob navB digest nowB stB sB v) =
        (case generatePasswordFromEntropy digest e sB v of
           Inl error \<Rightarrow> None | Inr pw \<Rightarrow> Some pw)"
    unfolding generatePassword_supported [where ws = wsB and atob = atob and binary = binaryB,
        OF c2 i2 b2] n2 generatePassword_resume_result
    by simp
  show "fst (generatePassword wsA atob navA digest nowA stA sA v) =
        fst (generatePassword wsB atob navB digest nowB stB sB v)"
    unfolding r1 r2 same by (rule refl)
  show "fst (generatePassword wsA atob navA digest nowA stA sA v) =
        (case generatePasswordFromEntropy digest e sA v of
           Inl error \<Rightarrow> None | Inr pw \<Rightarrow> Some pw)"
    by (rule r1)
next
  assume "getDeterministicAuthenticatorData rawA = getDeterministicAuthenticatorData rawB \<and>
    authA cidA (generateDeterministicChallenge digest d) = Inr (Some rawA) \<and>
    authB cidB (generateDeterministicChallenge digest d) = Inr (Some rawB)"
  then show "generateCodename digest authA deriveBits dict cidA d =
      generateCodename digest authB deriveBits dict cidB d"
    using generateCodename_normalized [of rawA rawB authA cidA digest d authB cidB deriveBits dict]
    by blast
qed

theorem generation_deterministic_witness:
  "serviceName (js ''accounts.example.com'') = serviceName (js ''example.com'') \<and>
   js ''accounts.example.com'' \<noteq> js ''example.com'' \<and>
   fst (generatePassword test_webauthn example_atob answer_all mock_digest 0 initial_store
          (js ''accounts.example.com'') 1) =
   fst (generatePassword test_webauthn example_atob answer_all mock_digest 1000 (pstore busy_page)
          (js ''example.com'') 1) \<and>
   arrays example_store 0 \<noteq> arrays example_store 1 \<and>
   generateCodename mock_digest (auth_always (arrays example_store 0)) zero_hkdf
       example_dictionary (js ''0a1b2c'') (js ''example.com'') =
   generateCodename mock_digest (auth_always (arrays example_store 1)) zero_hkdf
       example_dictionary (js ''0d4e5f'') (js ''example.com'')"
proof -
  note th = generation_deterministic [where digest = mock_digest
      and wsA = test_webauthn and wsB = test_webauthn and atob = example_atob
      and binaryA = "js ''test-id''" and binaryB = "js ''test-id''"
      and navA = answer_all and navB = answer_all
      and sA = "js ''accounts.example.com''" and sB = "js ''example.com''" and v = 1
      and e = "[1, 2, 3, 4, 5, 6, 7, 8]"
      and nowA = 0 and nowB = 1000 and stA = initial_store and stB = "pstore busy_page"
      and rawA = "arrays example_store 0" and rawB = "arrays example_store 1"
      and authA = "auth_always (arrays example_store 0)"
      and authB = "auth_always (arrays example_store 1)"
      and cidA = "js ''0a1b2c''" and cidB = "js ''0d4e5f''"
      and d = "js ''example.com''" and deriveBits = zero_hkdf and dict = example_dictionary]
  note c = test_webauthn_ready(1) and s = test_webauthn_ready(2) and b = test_webauthn_ready(3)
  have lab: "serviceName (js ''accounts.example.com'') = serviceName (js ''example.com'')"
    by (simp add: serviceName_def js_def dot_def)
  have ne: "js ''accounts.example.com'' \<noteq> js ''example.com''"
    by (simp add: js_def)
  have n1: "answer_all \<lparr>allowCredential = Uint8Array_from_string (js ''test-id''),
          challengeBytes = TextEncoder_encode (challenge_string (js ''accounts.example.com'') 1)\<rparr>
        = Some [1, 2, 3, 4, 5, 6, 7, 8]"
    and n2: "answer_all \<lparr>allowCredential = Uint8Array_from_string (js ''test-id''),
          challengeBytes = TextEncoder_encode (challenge_string (js ''example.com'') 1)\<rparr>
        = Some [1, 2, 3, 4, 5, 6, 7, 8]"
    by (simp_all add: answer_all_def)
  have d: "differ_only_at zeroed_bytes (arrays example_store 0) (arrays example_store 1)"
    by (simp add: example_store_def example_assertion_def differ_only_at_def zeroed_bytes_def
        upt_rec numeral_eq_Suc)
  have norm: "getDeterministicAuthenticatorData (arrays example_store 0) =
              getDeterministicAuthenticatorData (arrays example_store 1)"
    using d by (rule differ_only_at_zeroed_normalized)
  have rawne: "arrays example_store 0 \<noteq> arrays example_store 1"
  proof
    assume "arrays example_store 0 = arrays example_store 1"
    then have "arrays example_store 0 ! 21 = arrays example_store 1 ! 21" by simp
    then show False by (simp add: example_store_def example_assertion_def)
  qed
  have a1: "auth_always (arrays example_store 0) (js ''0a1b2c'')
              (generateDeterministicChallenge mock_digest (js ''example.com'')) =
            Inr (Some (arrays example_store 0))"
    and a2: "auth_always (arrays example_store 1) (js ''0d4e5f'')
              (generateDeterministicChallenge mock_digest (js ''example.com'')) =
            Inr (Some (arrays example_store 1))"
    by (simp_all add: auth_always_def)
  from th [THEN conjunct1, THEN mp, OF conjI [OF c conjI [OF s conjI [OF c conjI [OF s
        conjI [OF b conjI [OF b conjI [OF n1 conjI [OF n2 lab]]]]]]]]]
    th [THEN conjunct2, THEN mp, OF conjI [OF norm conjI [OF a1 a2]]]
    lab ne rawne
  show ?thesis by blast
qed

end
